theory Spec2Isabelle
  imports Complex_Main "HOL-Library.Multiset"
begin

section \<open>Values exchanged with the client\<close>

text \<open>
  A field of a JSON request body is absent, present with the value null, or present with
  a value. Python's \<open>data.get(k)\<close> maps the first two to \<open>None\<close>; \<open>data.get(k, d)\<close>
  maps only the absent key to the default; \<open>data[k]\<close> raises \<open>KeyError\<close> on the absent
  key. Request fields are modelled at the type of the column they are bound to.
\<close>

datatype 'a field = Absent | Null | Val 'a

definition get :: "'a field \<Rightarrow> 'a option" where
  "get f = (case f of Absent \<Rightarrow> None | Null \<Rightarrow> None | Val v \<Rightarrow> Some v)"

definition get_default :: "'a field \<Rightarrow> 'a \<Rightarrow> 'a option" where
  "get_default f d = (case f of Absent \<Rightarrow> Some d | Null \<Rightarrow> None | Val v \<Rightarrow> Some v)"

text \<open>Python truthiness of an optional string and of an optional integer (\<open>not x\<close> is its negation).\<close>

definition truthy_str :: "string option \<Rightarrow> bool" where
  "truthy_str x = (case x of None \<Rightarrow> False | Some s \<Rightarrow> s \<noteq> [])"

definition truthy_int :: "int option \<Rightarrow> bool" where
  "truthy_int x = (case x of None \<Rightarrow> False | Some n \<Rightarrow> n \<noteq> 0)"

text \<open>
  The values handed to \<open>jsonify\<close>. \<open>JNum\<close> is a numeric amount (a \<open>Decimal\<close> or the
  \<open>float\<close> made from it; rounding and serialisation are not modelled), \<open>JDate\<close> a timestamp.
\<close>

datatype json =
    JNull
  | JBool bool
  | JInt int
  | JNum rat
  | JStr string
  | JDate int
  | JArr "json list"
  | JObj "(string \<times> json) list"

datatype response = Response nat json | ReturnedNone

datatype exn =
    PyException string
  | KeyError string
  | TypeError string
  | AttributeError string
  | UniqueViolation string
  | NotNullViolation string
  | InvalidTextRepresentation string
  | OperationalError string

text \<open>\<open>str(e)\<close>: the message of the exception; a \<open>KeyError\<close> prints the quoted key.\<close>

fun str_exn :: "exn \<Rightarrow> string" where
  "str_exn (PyException m) = m"
| "str_exn (KeyError k) = [CHR 0x27] @ k @ [CHR 0x27]"
| "str_exn (TypeError m) = m"
| "str_exn (AttributeError m) = m"
| "str_exn (UniqueViolation m) = m"
| "str_exn (NotNullViolation m) = m"
| "str_exn (InvalidTextRepresentation m) = m"
| "str_exn (OperationalError m) = m"

section \<open>The relational store\<close>

text \<open>
  Modelled from the spec: the table schemas. The repository holds no DDL; the columns are
  those named by the SQL statements of \<open>app.py\<close>, typed and non-null as in the data model of
  the specification, with the unique constraint on \<open>users.email\<close> and no foreign keys.
  Decimal amounts are rationals, timestamps integers.
\<close>

record user_row =
  u_id :: int
  u_name :: string
  u_email :: string
  u_password :: string
  u_is_admin :: bool

record product_row =
  p_id :: int
  p_name :: string
  p_category :: string
  p_price :: rat
  p_image_url :: string

record cart_row =
  c_id :: int
  c_user_id :: int
  c_product_id :: int
  c_quantity :: int

record order_row =
  o_id :: int
  o_user_id :: int
  o_total_amount :: rat
  o_status :: string
  o_created_at :: int

record tables =
  users :: "user_row list"
  products :: "product_row list"
  cart :: "cart_row list"
  orders :: "order_row list"

datatype conn_status = NotAcquired | Opened | Closed

text \<open>
  What a request handler can observe and change: the committed tables (\<open>store\<close>), the open
  connection's uncommitted view of them (\<open>txn\<close>), the id sequences (not transactional),
  the connection and its cursor, the process's standard output, the \<open>DATABASE_URL\<close>
  environment variable, and the failures the database server will answer the next
  round trips with (\<open>faults\<close>: one entry per round trip, \<open>Some m\<close> an operational error
  with message \<open>m\<close>; past the end of the list nothing fails). An entry is the failure of
  that round trip alone, such as a lock timeout; a connection that the server has dropped
  fails every later round trip too, the rollback included, which is a schedule with an
  entry \<open>Some\<close> at each of them.
\<close>

record world =
  store :: tables
  txn :: tables
  seq_users :: int
  seq_products :: int
  seq_cart :: int
  conn :: conn_status
  cursor_open :: bool
  stdout :: "string list"
  database_url :: "string option"
  faults :: "string option list"

section \<open>Control flow: exceptions, \<open>try\<close>/\<open>except\<close>/\<open>finally\<close>\<close>

type_synonym 'a io = "world \<Rightarrow> (exn + 'a) \<times> world"

definition ret :: "'a \<Rightarrow> 'a io" where
  "ret x = (\<lambda>w. (Inr x, w))"

definition raise :: "exn \<Rightarrow> 'a io" where
  "raise e = (\<lambda>w. (Inl e, w))"

definition bnd :: "'a io \<Rightarrow> ('a \<Rightarrow> 'b io) \<Rightarrow> 'b io" where
  "bnd m f = (\<lambda>w. case m w of (Inl e, w') \<Rightarrow> (Inl e, w') | (Inr x, w') \<Rightarrow> f x w')"

definition try_except :: "'a io \<Rightarrow> (exn \<Rightarrow> 'a io) \<Rightarrow> 'a io" where
  "try_except m h = (\<lambda>w. case m w of (Inl e, w') \<Rightarrow> h e w' | (Inr x, w') \<Rightarrow> (Inr x, w'))"

text \<open>
  \<open>finally\<close> runs after every outcome of the body and keeps that outcome, unless the
  \<open>finally\<close> block itself raises.
\<close>

definition try_finally :: "'a io \<Rightarrow> unit io \<Rightarrow> 'a io" where
  "try_finally m fin =
     (\<lambda>w. case m w of (r, w') \<Rightarrow>
        (case fin w' of (Inl e, w'') \<Rightarrow> (Inl e, w'') | (Inr _, w'') \<Rightarrow> (r, w'')))"

definition py_print :: "string \<Rightarrow> unit io" where
  "py_print s = (\<lambda>w. (Inr (), w\<lparr>stdout := stdout w @ [s]\<rparr>))"

section \<open>The database driver\<close>

text \<open>
  Every round trip to the server (\<open>connect\<close>, \<open>execute\<close>, \<open>commit\<close>, \<open>rollback\<close>) first
  consumes the next entry of \<open>faults\<close> and raises it if there is one. Creating and closing
  a client-side cursor and closing the connection make no round trip that can fail.
\<close>

definition db_call :: "'a io \<Rightarrow> 'a io" where
  "db_call op =
     (\<lambda>w. case faults w of
        [] \<Rightarrow> op w
      | None # fs \<Rightarrow> op (w\<lparr>faults := fs\<rparr>)
      | Some m # fs \<Rightarrow> (Inl (OperationalError m), w\<lparr>faults := fs\<rparr>))"

definition connect :: "unit io" where
  "connect = db_call (\<lambda>w. (Inr (), w\<lparr>conn := Opened, txn := store w\<rparr>))"

definition get_db_connection :: "unit io" where
  "get_db_connection =
     (\<lambda>w. if \<not> truthy_str (database_url w)
           then raise (PyException ''DATABASE_URL environment variable not set'') w
           else connect w)"

definition cursor :: "unit io" where
  "cursor = (\<lambda>w. (Inr (), w\<lparr>cursor_open := True\<rparr>))"

definition cur_close :: "unit io" where
  "cur_close = (\<lambda>w. (Inr (), w\<lparr>cursor_open := False\<rparr>))"

text \<open>Closing the connection discards what was not committed.\<close>

definition conn_close :: "unit io" where
  "conn_close = (\<lambda>w. (Inr (), w\<lparr>conn := Closed, txn := store w\<rparr>))"

definition commit :: "unit io" where
  "commit = db_call (\<lambda>w. (Inr (), w\<lparr>store := txn w\<rparr>))"

definition rollback :: "unit io" where
  "rollback = db_call (\<lambda>w. (Inr (), w\<lparr>txn := store w\<rparr>))"

text \<open>The \<open>finally\<close> block shared by all handlers: \<open>cur.close(); conn.close()\<close>.\<close>

definition release :: "unit io" where
  "release = bnd cur_close (\<lambda>_. conn_close)"

section \<open>External collaborators\<close>

text \<open>
  The handlers call three functions that are not part of the repository; they are
  parameters of the model:
  \<^item> \<open>gph\<close>: werkzeug's \<open>generate_password_hash\<close>, from a plaintext to the stored hash;
  \<^item> \<open>cph\<close>: werkzeug's \<open>check_password_hash\<close>, applied to the stored hash and to the
    password of the request, which is \<open>None\<close> when the request carries none; it returns a
    boolean or raises;
  \<^item> \<open>int4in\<close>: the server's conversion of a text parameter compared with an integer
    column (query-string arguments are always text); \<open>None\<close> when the text is not an integer.
\<close>

definition lift :: "exn + 'a \<Rightarrow> 'a io" where
  "lift r = (\<lambda>w. (r, w))"

definition subscript :: "string \<Rightarrow> 'a field \<Rightarrow> 'a option io" where
  "subscript k f =
     (case f of Absent \<Rightarrow> raise (KeyError k) | Null \<Rightarrow> ret None | Val v \<Rightarrow> ret (Some v))"

definition err :: "string \<Rightarrow> json" where
  "err m = JObj [(''error'', JStr m)]"

definition msg :: "string \<Rightarrow> json" where
  "msg m = JObj [(''message'', JStr m)]"

section \<open>The SQL statements\<close>

text \<open>
  Each \<open>cur.execute\<close> with its \<open>fetchone\<close>/\<open>fetchall\<close>, as a function of the connection's
  view of the tables. A parameter that is \<open>None\<close> is SQL \<open>NULL\<close>: it equals nothing in a
  \<open>WHERE\<close> clause and violates the non-null constraint of a column it is written to.
\<close>

definition select_user_by_email :: "string option \<Rightarrow> user_row option io" where
  "select_user_by_email email =
     db_call (\<lambda>w. (Inr (case email of None \<Rightarrow> None
                         | Some e \<Rightarrow> find (\<lambda>u. u_email u = e) (users (txn w))), w))"

definition insert_user :: "string option \<Rightarrow> string option \<Rightarrow> string option \<Rightarrow> unit io" where
  "insert_user name email hashed =
     db_call (\<lambda>w.
       let w1 = w\<lparr>seq_users := seq_users w + 1\<rparr> in
       case (name, email, hashed) of
         (Some n, Some e, Some h) \<Rightarrow>
           if e \<in> set (map u_email (users (txn w)))
           then (Inl (UniqueViolation ''duplicate key value violates unique constraint''), w1)
           else (Inr (), w1\<lparr>txn := (txn w)\<lparr>users := users (txn w) @
                   [\<lparr>u_id = seq_users w, u_name = n, u_email = e, u_password = h,
                     u_is_admin = False\<rparr>]\<rparr>\<rparr>)
       | _ \<Rightarrow> (Inl (NotNullViolation ''null value violates not-null constraint''), w1))"

definition select_products :: "string option \<Rightarrow> product_row list io" where
  "select_products category =
     db_call (\<lambda>w. (Inr (case category of None \<Rightarrow> products (txn w)
                         | Some c \<Rightarrow> filter (\<lambda>p. p_category p = c) (products (txn w))), w))"

definition select_cart_item :: "int option \<Rightarrow> int option \<Rightarrow> cart_row option io" where
  "select_cart_item user_id product_id =
     db_call (\<lambda>w. (Inr (case (user_id, product_id) of
                           (Some u, Some p) \<Rightarrow>
                             find (\<lambda>c. c_user_id c = u \<and> c_product_id c = p) (cart (txn w))
                         | _ \<Rightarrow> None), w))"

definition update_cart_quantity :: "int \<Rightarrow> int \<Rightarrow> unit io" where
  "update_cart_quantity q i =
     db_call (\<lambda>w. (Inr (), w\<lparr>txn := (txn w)\<lparr>cart :=
        map (\<lambda>c. if c_id c = i then c\<lparr>c_quantity := q\<rparr> else c) (cart (txn w))\<rparr>\<rparr>))"

definition insert_cart :: "int option \<Rightarrow> int option \<Rightarrow> int option \<Rightarrow> unit io" where
  "insert_cart user_id product_id quantity =
     db_call (\<lambda>w.
       let w1 = w\<lparr>seq_cart := seq_cart w + 1\<rparr> in
       case (user_id, product_id, quantity) of
         (Some u, Some p, Some q) \<Rightarrow>
           (Inr (), w1\<lparr>txn := (txn w)\<lparr>cart := cart (txn w) @
              [\<lparr>c_id = seq_cart w, c_user_id = u, c_product_id = p, c_quantity = q\<rparr>]\<rparr>\<rparr>)
       | _ \<Rightarrow> (Inl (NotNullViolation ''null value violates not-null constraint''), w1))"

type_synonym cart_line = "int \<times> string \<times> rat \<times> string \<times> int"

definition cart_join :: "tables \<Rightarrow> int \<Rightarrow> cart_line list" where
  "cart_join t u =
     concat (map (\<lambda>c. map (\<lambda>p. (c_id c, p_name p, p_price p, p_image_url p, c_quantity c))
                          (filter (\<lambda>p. c_product_id c = p_id p) (products t)))
                 (filter (\<lambda>c. c_user_id c = u) (cart t)))"

definition select_cart_join :: "(string \<Rightarrow> int option) \<Rightarrow> string option \<Rightarrow> cart_line list io" where
  "select_cart_join int4in user_id =
     db_call (\<lambda>w. case user_id of
         None \<Rightarrow> (Inr [], w)
       | Some s \<Rightarrow>
           (case int4in s of
              None \<Rightarrow> (Inl (InvalidTextRepresentation ''invalid input syntax for type integer''), w)
            | Some u \<Rightarrow> (Inr (cart_join (txn w) u), w)))"

definition sql_sum :: "rat list \<Rightarrow> rat option" where
  "sql_sum xs = (if xs = [] then None else Some (sum_list xs))"

definition coalesce :: "'a option \<Rightarrow> 'a \<Rightarrow> 'a" where
  "coalesce x d = (case x of None \<Rightarrow> d | Some v \<Rightarrow> v)"

definition select_revenue :: "rat io" where
  "select_revenue =
     db_call (\<lambda>w. (Inr (coalesce (sql_sum (map o_total_amount (orders (txn w)))) 0), w))"

definition select_count_orders :: "int io" where
  "select_count_orders = db_call (\<lambda>w. (Inr (int (length (orders (txn w)))), w))"

definition select_count_products :: "int io" where
  "select_count_products = db_call (\<lambda>w. (Inr (int (length (products (txn w)))), w))"

definition insert_product ::
  "string option \<Rightarrow> string option \<Rightarrow> rat option \<Rightarrow> string option \<Rightarrow> unit io" where
  "insert_product name category price image_url =
     db_call (\<lambda>w.
       let w1 = w\<lparr>seq_products := seq_products w + 1\<rparr> in
       case (name, category, price, image_url) of
         (Some n, Some c, Some pr, Some i) \<Rightarrow>
           (Inr (), w1\<lparr>txn := (txn w)\<lparr>products := products (txn w) @
              [\<lparr>p_id = seq_products w, p_name = n, p_category = c, p_price = pr,
                p_image_url = i\<rparr>]\<rparr>\<rparr>)
       | _ \<Rightarrow> (Inl (NotNullViolation ''null value violates not-null constraint''), w1))"

definition delete_product :: "(string \<Rightarrow> int option) \<Rightarrow> string option \<Rightarrow> unit io" where
  "delete_product int4in product_id =
     db_call (\<lambda>w. case product_id of
         None \<Rightarrow> (Inr (), w)
       | Some s \<Rightarrow>
           (case int4in s of
              None \<Rightarrow> (Inl (InvalidTextRepresentation ''invalid input syntax for type integer''), w)
            | Some i \<Rightarrow> (Inr (), w\<lparr>txn := (txn w)\<lparr>products :=
                           filter (\<lambda>p. p_id p \<noteq> i) (products (txn w))\<rparr>\<rparr>)))"

type_synonym order_line = "int \<times> string \<times> rat \<times> string \<times> int"

definition line_date :: "order_line \<Rightarrow> int" where
  "line_date r = (case r of (i, customer, amount, status, date) \<Rightarrow> date)"

definition orders_join :: "tables \<Rightarrow> order_line list" where
  "orders_join t =
     concat (map (\<lambda>r. map (\<lambda>u. (o_id r, u_name u, o_total_amount r, o_status r, o_created_at r))
                          (filter (\<lambda>u. o_user_id r = u_id u) (users t)))
                 (orders t))"

text \<open>\<open>ORDER BY o.created_at DESC\<close>; the order of rows with equal timestamps is the server's choice.\<close>

definition order_by_created_at_desc :: "order_line list \<Rightarrow> order_line list" where
  "order_by_created_at_desc rows = sort_key (\<lambda>r. - line_date r) rows"

definition select_orders_join :: "order_line list io" where
  "select_orders_join = db_call (\<lambda>w. (Inr (order_by_created_at_desc (orders_join (txn w))), w))"

definition update_order_status :: "string option \<Rightarrow> int option \<Rightarrow> unit io" where
  "update_order_status status order_id =
     db_call (\<lambda>w. case order_id of
         None \<Rightarrow> (Inr (), w)
       | Some i \<Rightarrow>
           (case status of
              None \<Rightarrow>
                if i \<in> set (map o_id (orders (txn w)))
                then (Inl (NotNullViolation ''null value violates not-null constraint''), w)
                else (Inr (), w)
            | Some s \<Rightarrow> (Inr (), w\<lparr>txn := (txn w)\<lparr>orders :=
                  map (\<lambda>r. if o_id r = i then r\<lparr>o_status := s\<rparr> else r) (orders (txn w))\<rparr>\<rparr>)))"

section \<open>The request handlers\<close>

datatype http_method = GET | HEAD | POST | PUT | DELETE

definition home :: "response io" where
  "home = ret (Response 200 (JObj [(''status'', JStr ''Backend is running'')]))"

definition signup_except :: "exn \<Rightarrow> response io" where
  "signup_except e =
     (case e of
        UniqueViolation m \<Rightarrow>
          bnd rollback (\<lambda>_. ret (Response 400 (err ''Email already exists'')))
      | _ \<Rightarrow>
          bnd rollback (\<lambda>_.
          bnd (py_print (''Error: '' @ str_exn e)) (\<lambda>_.
          ret (Response 500 (err ''Signup failed'')))))"

definition signup ::
  "(string \<Rightarrow> string) \<Rightarrow> string field \<Rightarrow> string field \<Rightarrow> string field \<Rightarrow> response io" where
  "signup gph f_name f_email f_password =
     (let name = get f_name; email = get f_email; password = get f_password in
      if \<not> (truthy_str name \<and> truthy_str email \<and> truthy_str password)
      then ret (Response 400 (err ''All fields required''))
      else
        let hashed_password = map_option gph password in
        bnd get_db_connection (\<lambda>_.
        bnd cursor (\<lambda>_.
        try_finally
          (try_except
             (bnd (insert_user name email hashed_password) (\<lambda>_.
              bnd commit (\<lambda>_.
              ret (Response 201 (msg ''Signup successful'')))))
             signup_except)
          release)))"

definition login ::
  "(string \<Rightarrow> string option \<Rightarrow> exn + bool) \<Rightarrow> string field \<Rightarrow> string field \<Rightarrow> response io" where
  "login cph f_email f_password =
     (let email = get f_email; password = get f_password in
      if \<not> truthy_str email \<or> \<not> truthy_str password
      then ret (Response 400 (err ''Email and password required''))
      else
        bnd get_db_connection (\<lambda>_.
        bnd cursor (\<lambda>_.
        try_finally
          (bnd (select_user_by_email email) (\<lambda>user.
             case user of
               None \<Rightarrow> ret (Response 401 (err ''Invalid email or password''))
             | Some u \<Rightarrow>
                 bnd (lift (cph (u_password u) password)) (\<lambda>ok.
                 if ok
                 then ret (Response 200 (JObj [(''user_id'', JInt (u_id u)),
                                               (''name'', JStr (u_name u)),
                                               (''message'', JStr ''Login successful'')]))
                 else ret (Response 401 (err ''Invalid email or password'')))))
          release)))"

definition product_json :: "product_row \<Rightarrow> json" where
  "product_json r = JObj [(''id'', JInt (p_id r)), (''name'', JStr (p_name r)),
                          (''price'', JNum (p_price r)), (''category'', JStr (p_category r)),
                          (''image_url'', JStr (p_image_url r))]"

definition get_products :: "string option \<Rightarrow> response io" where
  "get_products category =
     bnd get_db_connection (\<lambda>_.
     bnd cursor (\<lambda>_.
     try_finally
       (bnd (if truthy_str category then select_products category else select_products None)
          (\<lambda>rows. ret (Response 200 (JArr (map product_json rows)))))
       release))"

definition py_add :: "int \<Rightarrow> int option \<Rightarrow> int io" where
  "py_add a b =
     (case b of
        None \<Rightarrow> raise (TypeError ''unsupported operand type(s) for +: int and NoneType'')
      | Some n \<Rightarrow> ret (a + n))"

definition add_to_cart :: "int field \<Rightarrow> int field \<Rightarrow> int field \<Rightarrow> response io" where
  "add_to_cart f_user_id f_product_id f_quantity =
     (let user_id = get f_user_id; product_id = get f_product_id;
          quantity = get_default f_quantity 1 in
      if \<not> truthy_int user_id \<or> \<not> truthy_int product_id
      then ret (Response 400 (err ''user_id and product_id required''))
      else
        bnd get_db_connection (\<lambda>_.
        bnd cursor (\<lambda>_.
        try_finally
          (try_except
             (bnd (select_cart_item user_id product_id) (\<lambda>existing.
              bnd (case existing of
                     Some row \<Rightarrow>
                       bnd (py_add (c_quantity row) quantity) (\<lambda>q.
                       update_cart_quantity q (c_id row))
                   | None \<Rightarrow> insert_cart user_id product_id quantity) (\<lambda>_.
              bnd commit (\<lambda>_.
              ret (Response 200 (msg ''Product added to cart''))))))
             (\<lambda>e. bnd rollback (\<lambda>_.
                   bnd (py_print (''Error: '' @ str_exn e)) (\<lambda>_.
                   ret (Response 500 (err ''Error adding to cart''))))))
          release)))"

definition cart_json :: "cart_line \<Rightarrow> json" where
  "cart_json r = (case r of (i, name, price, image_url, quantity) \<Rightarrow>
     JObj [(''id'', JInt i), (''name'', JStr name), (''price'', JNum price),
           (''image_url'', JStr image_url), (''quantity'', JInt quantity)])"

definition get_cart :: "(string \<Rightarrow> int option) \<Rightarrow> string option \<Rightarrow> response io" where
  "get_cart int4in user_id =
     (if \<not> truthy_str user_id
      then ret (Response 400 (err ''user_id required''))
      else
        bnd get_db_connection (\<lambda>_.
        bnd cursor (\<lambda>_.
        try_finally
          (bnd (select_cart_join int4in user_id) (\<lambda>rows.
           ret (Response 200 (JArr (map cart_json rows)))))
          release)))"

definition admin_login ::
  "(string \<Rightarrow> string option \<Rightarrow> exn + bool) \<Rightarrow> string field \<Rightarrow> string field \<Rightarrow> response io" where
  "admin_login cph f_email f_password =
     (let email = get f_email; password = get f_password in
      bnd get_db_connection (\<lambda>_.
      bnd cursor (\<lambda>_.
      try_finally
        (bnd (select_user_by_email email) (\<lambda>user.
           case user of
             None \<Rightarrow> ret (Response 401 (err ''Invalid credentials''))
           | Some u \<Rightarrow>
               bnd (lift (cph (u_password u) password)) (\<lambda>ok.
               if ok
               then (if u_is_admin u
                     then ret (Response 200 (JObj [(''admin_id'', JInt (u_id u)),
                                                   (''name'', JStr (u_name u)),
                                                   (''token'', JStr ''admin_secret_token'')]))
                     else ret (Response 403 (err ''Access Denied: Admins only'')))
               else ret (Response 401 (err ''Invalid credentials'')))))
        release)))"

definition admin_stats :: "response io" where
  "admin_stats =
     bnd get_db_connection (\<lambda>_.
     bnd cursor (\<lambda>_.
     try_finally
       (bnd select_revenue (\<lambda>revenue.
        bnd select_count_orders (\<lambda>orders_count.
        bnd select_count_products (\<lambda>products_count.
        ret (Response 200 (JObj [(''revenue'', JNum revenue),
                                 (''orders'', JInt orders_count),
                                 (''products'', JInt products_count)]))))))
       release))"

definition manage_product ::
  "(string \<Rightarrow> int option) \<Rightarrow> http_method \<Rightarrow> string field \<Rightarrow> string field \<Rightarrow> rat field \<Rightarrow>
   string field \<Rightarrow> string option \<Rightarrow> response io" where
  "manage_product int4in meth f_name f_category f_price f_image_url arg_id =
     bnd get_db_connection (\<lambda>_.
     bnd cursor (\<lambda>_.
     try_finally
       (try_except
          (if meth = POST then
             bnd (subscript ''name'' f_name) (\<lambda>name.
             bnd (subscript ''category'' f_category) (\<lambda>category.
             bnd (subscript ''price'' f_price) (\<lambda>price.
             bnd (subscript ''image_url'' f_image_url) (\<lambda>image_url.
             bnd (insert_product name category price image_url) (\<lambda>_.
             bnd commit (\<lambda>_.
             ret (Response 201 (msg ''Product created''))))))))
           else if meth = DELETE then
             bnd (delete_product int4in arg_id) (\<lambda>_.
             bnd commit (\<lambda>_.
             ret (Response 200 (msg ''Product deleted''))))
           else ret ReturnedNone)
          (\<lambda>e. bnd rollback (\<lambda>_. ret (Response 500 (err (str_exn e))))))
       release))"

definition order_json :: "order_line \<Rightarrow> json" where
  "order_json r = (case r of (i, customer, amount, status, date) \<Rightarrow>
     JObj [(''id'', JInt i), (''customer'', JStr customer), (''amount'', JNum amount),
           (''status'', JStr status), (''date'', JDate date)])"

definition manage_orders :: "http_method \<Rightarrow> string field \<Rightarrow> int field \<Rightarrow> response io" where
  "manage_orders meth f_status f_order_id =
     bnd get_db_connection (\<lambda>_.
     bnd cursor (\<lambda>_.
     try_finally
       (if meth = GET then
          bnd select_orders_join (\<lambda>rows.
          ret (Response 200 (JArr (map order_json rows))))
        else if meth = PUT then
          bnd (subscript ''status'' f_status) (\<lambda>status.
          bnd (subscript ''order_id'' f_order_id) (\<lambda>order_id.
          bnd (update_order_status status order_id) (\<lambda>_.
          bnd commit (\<lambda>_.
          ret (Response 200 (msg ''Order updated''))))))
        else ret ReturnedNone)
       release))"

section \<open>A sample shop\<close>

text \<open>
  A small store and stand-ins for the external collaborators, on which the theorems
  below are instantiated. The stand-in verifier accepts the hash \<open>hash-\<close> followed by the
  password and, as werkzeug's does with \<open>None.encode()\<close>, raises when there is no password.
\<close>

definition shop :: tables where
  "shop = \<lparr>users =
            [\<lparr>u_id = 1, u_name = ''Ada'', u_email = ''ada@example.com'',
              u_password = ''hash-lovelace'', u_is_admin = True\<rparr>,
             \<lparr>u_id = 2, u_name = ''Bob'', u_email = ''bob@example.com'',
              u_password = ''hash-builder'', u_is_admin = False\<rparr>],
          products =
            [\<lparr>p_id = 7, p_name = ''Lamp'', p_category = ''home'', p_price = 25 / 2,
              p_image_url = ''lamp.png''\<rparr>,
             \<lparr>p_id = 8, p_name = ''Desk'', p_category = ''office'', p_price = 120,
              p_image_url = ''desk.png''\<rparr>],
          cart =
            [\<lparr>c_id = 1, c_user_id = 2, c_product_id = 7, c_quantity = 1\<rparr>,
             \<lparr>c_id = 2, c_user_id = 2, c_product_id = 99, c_quantity = 4\<rparr>],
          orders =
            [\<lparr>o_id = 1, o_user_id = 2, o_total_amount = 40, o_status = ''pending'',
              o_created_at = 100\<rparr>,
             \<lparr>o_id = 2, o_user_id = 1, o_total_amount = 15 / 2, o_status = ''shipped'',
              o_created_at = 300\<rparr>,
             \<lparr>o_id = 3, o_user_id = 2, o_total_amount = 5, o_status = ''pending'',
              o_created_at = 200\<rparr>]\<rparr>"

definition world0 :: world where
  "world0 = \<lparr>store = shop, txn = shop, seq_users = 3, seq_products = 9, seq_cart = 3,
             conn = NotAcquired, cursor_open = False, stdout = [],
             database_url = Some ''postgres://shop'', faults = []\<rparr>"

definition sample_gph :: "string \<Rightarrow> string" where
  "sample_gph s = ''hash-'' @ s"

definition sample_cph :: "string \<Rightarrow> string option \<Rightarrow> exn + bool" where
  "sample_cph h p =
     (case p of
        None \<Rightarrow> Inl (AttributeError ''NoneType object has no attribute encode'')
      | Some s \<Rightarrow> Inr (h = ''hash-'' @ s))"

definition sample_int4in :: "string \<Rightarrow> int option" where
  "sample_int4in s = (if s = ''1'' then Some 1 else if s = ''2'' then Some 2 else None)"

text \<open>
  The same shop when the first statement runs into a lock timeout: the statement fails,
  the connection stays usable and the rollback that follows succeeds.
\<close>

definition world_fault :: world where
  "world_fault = world0\<lparr>faults := [None, Some ''canceling statement due to lock timeout'']\<rparr>"

section \<open>Running a handler while the server answers every round trip\<close>

lemma db_call_quiet: "faults w = [] \<Longrightarrow> db_call op w = op w"
  by (simp add: db_call_def)

lemma get_db_connection_quiet:
  "truthy_str (database_url w) \<Longrightarrow> faults w = [] \<Longrightarrow>
   get_db_connection w = (Inr (), w\<lparr>conn := Opened, txn := store w\<rparr>)"
  by (simp add: get_db_connection_def connect_def db_call_def)

lemmas io_defs = bnd_def ret_def raise_def try_except_def try_finally_def release_def
  cur_close_def conn_close_def cursor_def lift_def py_print_def

section \<open>Cart: add or increment\<close>

lemma add_to_cart_step:
  assumes "u \<noteq> 0" "p \<noteq> 0" "get_default fq 1 = Some q"
    "truthy_str (database_url w)" "faults w = []"
  shows "fst (add_to_cart (Val u) (Val p) fq w) = Inr (Response 200 (msg ''Product added to cart''))"
   and "cart (store (snd (add_to_cart (Val u) (Val p) fq w))) =
      (case find (\<lambda>c. c_user_id c = u \<and> c_product_id c = p) (cart (store w)) of
         Some row \<Rightarrow> map (\<lambda>c. if c_id c = c_id row then c\<lparr>c_quantity := c_quantity row + q\<rparr> else c)
                       (cart (store w))
       | None \<Rightarrow> cart (store w) @
                  [\<lparr>c_id = seq_cart w, c_user_id = u, c_product_id = p, c_quantity = q\<rparr>])"
   and "faults (snd (add_to_cart (Val u) (Val p) fq w)) = []"
   and "database_url (snd (add_to_cart (Val u) (Val p) fq w)) = database_url w"
  using assms
  by (simp_all add: add_to_cart_def get_def truthy_int_def get_db_connection_quiet io_defs
        select_cart_item_def update_cart_quantity_def insert_cart_def commit_def rollback_def
        py_add_def db_call_def Let_def split: option.splits)

lemma find_append_None:
  "find P xs = None \<Longrightarrow> find P (xs @ ys) = find P ys"
  by (induction xs) (auto split: if_splits)

lemma filter_map_bump_none:
  "find (\<lambda>c. c_user_id c = u \<and> c_product_id c = p) xs = None \<Longrightarrow>
   filter (\<lambda>c. c_user_id c = u \<and> c_product_id c = p)
     (map (\<lambda>c. if c_id c = i then c\<lparr>c_quantity := n\<rparr> else c) xs) = []"
  by (induction xs) (auto split: if_splits)

text \<open>
  Claim C1. A call of \<open>add_to_cart\<close> whose \<open>user_id\<close> and \<open>product_id\<close> pass the handler's
  presence test (they are given and not zero), with an integer quantity, on a configured
  store that answers every round trip, returns 200 and commits this: if the cart holds a
  row for the pair, the first such row (the one \<open>fetchone\<close> returns) gets the quantity
  \<open>existing + given\<close> through the \<open>UPDATE\<close> by its id and no row is added; otherwise one row
  with the given quantity is appended. Adding \<open>q\<close> and then \<open>q'\<close> for a pair that had no row
  leaves exactly one row for the pair, with quantity \<open>q + q'\<close>.
\<close>

theorem add_to_cart_upsert:
  assumes "u \<noteq> 0" and "p \<noteq> 0" and "truthy_str (database_url w)" and "faults w = []"
  shows "fst (add_to_cart (Val u) (Val p) (Val q) w)
           = Inr (Response 200 (msg ''Product added to cart''))
       \<and> cart (store (snd (add_to_cart (Val u) (Val p) (Val q) w))) =
          (case find (\<lambda>c. c_user_id c = u \<and> c_product_id c = p) (cart (store w)) of
             Some row \<Rightarrow>
               map (\<lambda>c. if c_id c = c_id row then c\<lparr>c_quantity := c_quantity row + q\<rparr> else c)
                   (cart (store w))
           | None \<Rightarrow> cart (store w) @
               [\<lparr>c_id = seq_cart w, c_user_id = u, c_product_id = p, c_quantity = q\<rparr>])
       \<and> (find (\<lambda>c. c_user_id c = u \<and> c_product_id c = p) (cart (store w)) = None \<longrightarrow>
            filter (\<lambda>c. c_user_id c = u \<and> c_product_id c = p)
              (cart (store (snd (add_to_cart (Val u) (Val p) (Val q')
                 (snd (add_to_cart (Val u) (Val p) (Val q) w))))))
            = [\<lparr>c_id = seq_cart w, c_user_id = u, c_product_id = p, c_quantity = q + q'\<rparr>])"
proof -
  let ?P = "\<lambda>c. c_user_id c = u \<and> c_product_id c = p"
  let ?w1 = "snd (add_to_cart (Val u) (Val p) (Val q) w)"
  have gq: "get_default (Val q) 1 = Some q" and gq': "get_default (Val q') 1 = Some q'"
    by (simp_all add: get_default_def)
  note first = add_to_cart_step [OF assms(1,2) gq assms(3,4)]
  have url1: "truthy_str (database_url ?w1)" using first(4) assms(3) by simp
  note second = add_to_cart_step [OF assms(1,2) gq' url1 first(3)]
  have seq: "filter ?P (cart (store (snd (add_to_cart (Val u) (Val p) (Val q') ?w1))))
      = [\<lparr>c_id = seq_cart w, c_user_id = u, c_product_id = p, c_quantity = q + q'\<rparr>]"
    if none: "find ?P (cart (store w)) = None"
  proof -
    let ?new = "\<lparr>c_id = seq_cart w, c_user_id = u, c_product_id = p, c_quantity = q\<rparr>"
    have c1: "cart (store ?w1) = cart (store w) @ [?new]"
      using first(2) none by simp
    have f1: "find ?P (cart (store ?w1)) = Some ?new"
      by (simp add: c1 find_append_None [OF none])
    have "cart (store (snd (add_to_cart (Val u) (Val p) (Val q') ?w1))) =
        map (\<lambda>c. if c_id c = seq_cart w then c\<lparr>c_quantity := q + q'\<rparr> else c)
          (cart (store w) @ [?new])"
      using second(2) f1 c1 by simp
    then show ?thesis
      by (simp add: filter_map_bump_none [OF none])
  qed
  show ?thesis using first(1,2) seq by blast
qed

theorem add_to_cart_upsert_witness:
  "(1::int) \<noteq> 0 \<and> (8::int) \<noteq> 0 \<and> truthy_str (database_url world0) \<and> faults world0 = []
   \<and> find (\<lambda>c. c_user_id c = 1 \<and> c_product_id c = 8) (cart (store world0)) = None
   \<and> fst (add_to_cart (Val 1) (Val 8) (Val 2) world0)
        = Inr (Response 200 (msg ''Product added to cart''))
   \<and> filter (\<lambda>c. c_user_id c = 1 \<and> c_product_id c = 8)
        (cart (store (snd (add_to_cart (Val 1) (Val 8) (Val 3)
           (snd (add_to_cart (Val 1) (Val 8) (Val 2) world0))))))
      = [\<lparr>c_id = 3, c_user_id = 1, c_product_id = 8, c_quantity = 5\<rparr>]"
proof -
  have h: "(1::int) \<noteq> 0" "(8::int) \<noteq> 0" "truthy_str (database_url world0)" "faults world0 = []"
    by (simp_all add: world0_def truthy_str_def)
  have n: "find (\<lambda>c. c_user_id c = 1 \<and> c_product_id c = 8) (cart (store world0)) = None"
    by (simp add: world0_def shop_def)
  have s: "seq_cart world0 = 3" by (simp add: world0_def)
  show ?thesis
    using add_to_cart_upsert [OF h, of 2 3] h n s by simp
qed

section \<open>Signup with an email that is taken\<close>

text \<open>
  Claim C2. A signup that passes the presence test with an email that already belongs to
  a user reaches the \<open>INSERT\<close> only to violate the unique constraint. Whatever else the
  server does, the committed tables are unchanged (no second row with that email) and the
  response is never the 201 of a successful signup; when the unique violation is the only
  failure, the response is 400 with \<open>Email already exists\<close>, not the 500 of the generic
  handler, and nothing is printed.
\<close>

theorem signup_duplicate_email:
  assumes "n \<noteq> []" and "e \<noteq> []" and "pw \<noteq> []"
    and "truthy_str (database_url w)"
    and "e \<in> set (map u_email (users (store w)))"
  shows "store (snd (signup gph (Val n) (Val e) (Val pw) w)) = store w
       \<and> fst (signup gph (Val n) (Val e) (Val pw) w) \<noteq> Inr (Response 201 (msg ''Signup successful''))
       \<and> (faults w = [] \<longrightarrow>
            fst (signup gph (Val n) (Val e) (Val pw) w) = Inr (Response 400 (err ''Email already exists''))
          \<and> stdout (snd (signup gph (Val n) (Val e) (Val pw) w)) = stdout w)"
  using assms
  by (auto simp add: signup_def signup_except_def get_def truthy_str_def get_db_connection_def
        connect_def io_defs insert_user_def commit_def rollback_def db_call_def Let_def
        split: option.splits list.splits)

theorem signup_duplicate_email_witness:
  "''Eve'' \<noteq> [] \<and> ''bob@example.com'' \<noteq> [] \<and> ''secret'' \<noteq> []
   \<and> truthy_str (database_url world0)
   \<and> ''bob@example.com'' \<in> set (map u_email (users (store world0)))
   \<and> faults world0 = []
   \<and> fst (signup sample_gph (Val ''Eve'') (Val ''bob@example.com'') (Val ''secret'') world0)
        = Inr (Response 400 (err ''Email already exists''))
   \<and> store (snd (signup sample_gph (Val ''Eve'') (Val ''bob@example.com'') (Val ''secret'') world0))
        = store world0"
proof -
  have h: "''Eve'' \<noteq> []" "''bob@example.com'' \<noteq> []" "''secret'' \<noteq> []"
      "truthy_str (database_url world0)"
      "''bob@example.com'' \<in> set (map u_email (users (store world0)))"
    by (simp_all add: world0_def shop_def truthy_str_def)
  have f: "faults world0 = []" by (simp add: world0_def)
  show ?thesis
    using signup_duplicate_email [OF h, of sample_gph] h f by simp
qed

section \<open>Login and admin login\<close>

text \<open>
  Claim C3. Take two logins that pass the presence test (email and password given and not
  empty) on configured stores that answer every round trip: one whose email belongs to no
  user, one whose email belongs to a user for whom the verifier returns \<open>False\<close>. Both get
  the response 401 with \<open>Invalid email or password\<close>; the two responses are equal.
\<close>

theorem login_failures_indistinguishable:
  assumes "e1 \<noteq> []" and "pw1 \<noteq> []" and "e2 \<noteq> []" and "pw2 \<noteq> []"
    and "truthy_str (database_url w1)" and "faults w1 = []"
    and "truthy_str (database_url w2)" and "faults w2 = []"
    and "find (\<lambda>u. u_email u = e1) (users (store w1)) = None"
    and "find (\<lambda>u. u_email u = e2) (users (store w2)) = Some u"
    and "cph (u_password u) (Some pw2) = Inr False"
  shows "fst (login cph (Val e1) (Val pw1) w1) = Inr (Response 401 (err ''Invalid email or password''))
       \<and> fst (login cph (Val e2) (Val pw2) w2) = fst (login cph (Val e1) (Val pw1) w1)"
  using assms
  by (simp add: login_def get_def truthy_str_def get_db_connection_quiet io_defs
        select_user_by_email_def db_call_def Let_def)

theorem login_failures_indistinguishable_witness:
  "find (\<lambda>u. u_email u = ''eve@example.com'') (users (store world0)) = None
   \<and> find (\<lambda>u. u_email u = ''bob@example.com'') (users (store world0))
       = Some \<lparr>u_id = 2, u_name = ''Bob'', u_email = ''bob@example.com'',
               u_password = ''hash-builder'', u_is_admin = False\<rparr>
   \<and> sample_cph ''hash-builder'' (Some ''wrong'') = Inr False
   \<and> fst (login sample_cph (Val ''eve@example.com'') (Val ''guess'') world0)
       = Inr (Response 401 (err ''Invalid email or password''))
   \<and> fst (login sample_cph (Val ''bob@example.com'') (Val ''wrong'') world0)
       = fst (login sample_cph (Val ''eve@example.com'') (Val ''guess'') world0)"
proof -
  let ?bob = "\<lparr>u_id = 2, u_name = ''Bob'', u_email = ''bob@example.com'',
               u_password = ''hash-builder'', u_is_admin = False\<rparr>"
  have h: "''eve@example.com'' \<noteq> []" "''guess'' \<noteq> []" "''bob@example.com'' \<noteq> []" "''wrong'' \<noteq> []"
      "truthy_str (database_url world0)" "faults world0 = []"
      "truthy_str (database_url world0)" "faults world0 = []"
      "find (\<lambda>u. u_email u = ''eve@example.com'') (users (store world0)) = None"
      "find (\<lambda>u. u_email u = ''bob@example.com'') (users (store world0)) = Some ?bob"
      "sample_cph (u_password ?bob) (Some ''wrong'') = Inr False"
    by (simp_all add: world0_def shop_def truthy_str_def sample_cph_def)
  show ?thesis
    using login_failures_indistinguishable [where cph = sample_cph and u = ?bob, OF h] h(9,10,11)
    by simp
qed

text \<open>
  Claim C4. On a configured store that answers every round trip, an admin login whose email
  belongs to a user and whose password the verifier accepts gets 403 with \<open>Access Denied:
  Admins only\<close> when the user's \<open>is_admin\<close> is false, and 200 with \<open>admin_id\<close>, \<open>name\<close> and the
  token when it is true; in neither case the 401 of invalid credentials.
\<close>

theorem admin_login_role_check:
  assumes "truthy_str (database_url w)" and "faults w = []"
    and "find (\<lambda>u. u_email u = e) (users (store w)) = Some u"
    and "cph (u_password u) (get f_password) = Inr True"
  shows "(\<not> u_is_admin u \<longrightarrow>
            fst (admin_login cph (Val e) f_password w)
              = Inr (Response 403 (err ''Access Denied: Admins only'')))
       \<and> (u_is_admin u \<longrightarrow>
            fst (admin_login cph (Val e) f_password w)
              = Inr (Response 200 (JObj [(''admin_id'', JInt (u_id u)), (''name'', JStr (u_name u)),
                                         (''token'', JStr ''admin_secret_token'')])))
       \<and> fst (admin_login cph (Val e) f_password w) \<noteq> Inr (Response 401 (err ''Invalid credentials''))"
  using assms
  by (simp add: admin_login_def get_def get_db_connection_quiet io_defs
        select_user_by_email_def db_call_def Let_def err_def)

theorem admin_login_role_check_witness:
  "fst (admin_login sample_cph (Val ''bob@example.com'') (Val ''builder'') world0)
       = Inr (Response 403 (err ''Access Denied: Admins only''))
   \<and> fst (admin_login sample_cph (Val ''ada@example.com'') (Val ''lovelace'') world0)
       = Inr (Response 200 (JObj [(''admin_id'', JInt 1), (''name'', JStr ''Ada''),
                                  (''token'', JStr ''admin_secret_token'')]))"
proof -
  let ?ada = "\<lparr>u_id = 1, u_name = ''Ada'', u_email = ''ada@example.com'',
               u_password = ''hash-lovelace'', u_is_admin = True\<rparr>"
  let ?bob = "\<lparr>u_id = 2, u_name = ''Bob'', u_email = ''bob@example.com'',
               u_password = ''hash-builder'', u_is_admin = False\<rparr>"
  have h: "truthy_str (database_url world0)" "faults world0 = []"
    by (simp_all add: world0_def truthy_str_def)
  have b: "find (\<lambda>u. u_email u = ''bob@example.com'') (users (store world0)) = Some ?bob"
      "sample_cph (u_password ?bob) (get (Val ''builder'')) = Inr True"
    by (simp_all add: world0_def shop_def sample_cph_def get_def)
  have a: "find (\<lambda>u. u_email u = ''ada@example.com'') (users (store world0)) = Some ?ada"
      "sample_cph (u_password ?ada) (get (Val ''lovelace'')) = Inr True"
    by (simp_all add: world0_def shop_def sample_cph_def get_def)
  show ?thesis
    using admin_login_role_check [where cph = sample_cph and u = ?bob, OF h b]
      admin_login_role_check [where cph = sample_cph and u = ?ada, OF h a]
    by simp
qed

text \<open>
  Claim C10, what the code does. On a configured store that answers every round trip,
  \<open>admin_login\<close> makes no presence check. It returns 401 with \<open>Invalid credentials\<close>, as
  the claim says, when the email is missing (absent or null: it matches no user), and when
  the password is missing and either no user has the email or the verifier returns \<open>False\<close>
  for the missing password. But when the password is missing and a user has the email,
  the verifier is called on \<open>None\<close>, and if it raises, as werkzeug's does, no 401 is
  returned: the exception leaves the handler. \<open>login\<close> answers a missing password with 400
  before any lookup.
\<close>

theorem admin_login_missing_input:
  assumes "truthy_str (database_url w)" and "faults w = []"
  shows "(get f_email = None \<longrightarrow>
            fst (admin_login cph f_email f_password w) = Inr (Response 401 (err ''Invalid credentials'')))
       \<and> (get f_password = None \<and> get f_email = Some e
            \<and> find (\<lambda>u. u_email u = e) (users (store w)) = None \<longrightarrow>
            fst (admin_login cph f_email f_password w) = Inr (Response 401 (err ''Invalid credentials'')))
       \<and> (get f_password = None \<and> get f_email = Some e
            \<and> find (\<lambda>u. u_email u = e) (users (store w)) = Some u
            \<and> cph (u_password u) None = Inr False \<longrightarrow>
            fst (admin_login cph f_email f_password w) = Inr (Response 401 (err ''Invalid credentials'')))
       \<and> (get f_password = None \<and> get f_email = Some e
            \<and> find (\<lambda>u. u_email u = e) (users (store w)) = Some u
            \<and> cph (u_password u) None = Inl x \<longrightarrow>
            fst (admin_login cph f_email f_password w) = Inl x)
       \<and> (get f_password = None \<longrightarrow>
            fst (login cph f_email f_password w)
              = Inr (Response 400 (err ''Email and password required'')))"
  using assms
  by (simp add: admin_login_def login_def truthy_str_def get_db_connection_quiet io_defs
        select_user_by_email_def db_call_def Let_def)

text \<open>
  On the sample shop: Bob exists and the request carries his email and no password. The
  handler raises instead of answering 401; \<open>login\<close> answers the same request with 400. A
  missing email, or an email nobody has, is answered with 401.
\<close>

theorem admin_login_missing_input_witness:
  "get (Absent :: string field) = None
   \<and> find (\<lambda>u. u_email u = ''bob@example.com'') (users (store world0))
       = Some \<lparr>u_id = 2, u_name = ''Bob'', u_email = ''bob@example.com'',
               u_password = ''hash-builder'', u_is_admin = False\<rparr>
   \<and> fst (admin_login sample_cph (Val ''bob@example.com'') Absent world0)
       = Inl (AttributeError ''NoneType object has no attribute encode'')
   \<and> fst (admin_login sample_cph (Val ''bob@example.com'') Absent world0)
       \<noteq> Inr (Response 401 (err ''Invalid credentials''))
   \<and> fst (login sample_cph (Val ''bob@example.com'') Absent world0)
       = Inr (Response 400 (err ''Email and password required''))
   \<and> fst (admin_login sample_cph Null (Val ''builder'') world0)
       = Inr (Response 401 (err ''Invalid credentials''))
   \<and> fst (admin_login sample_cph (Val ''eve@example.com'') Absent world0)
       = Inr (Response 401 (err ''Invalid credentials''))"
proof -
  let ?bob = "\<lparr>u_id = 2, u_name = ''Bob'', u_email = ''bob@example.com'',
               u_password = ''hash-builder'', u_is_admin = False\<rparr>"
  have h: "truthy_str (database_url world0)" "faults world0 = []"
    by (simp_all add: world0_def truthy_str_def)
  have g: "get (Null :: string field) = None" "get (Absent :: string field) = None"
      "get (Val ''eve@example.com'') = Some ''eve@example.com''"
      "get (Val ''bob@example.com'') = Some ''bob@example.com''"
    by (simp_all add: get_def)
  have n: "find (\<lambda>u. u_email u = ''eve@example.com'') (users (store world0)) = None"
      "find (\<lambda>u. u_email u = ''bob@example.com'') (users (store world0)) = Some ?bob"
    by (simp_all add: world0_def shop_def)
  have v: "sample_cph (u_password ?bob) None
      = Inl (AttributeError ''NoneType object has no attribute encode'')"
    by (simp add: sample_cph_def)
  show ?thesis
    using admin_login_missing_input [where cph = sample_cph and f_email = Null
          and f_password = "Val ''builder''", OF h]
      admin_login_missing_input [where cph = sample_cph and f_email = "Val ''eve@example.com''"
          and f_password = Absent and e = "''eve@example.com''", OF h]
      admin_login_missing_input [where cph = sample_cph and f_email = "Val ''bob@example.com''"
          and f_password = Absent and e = "''bob@example.com''" and u = ?bob
          and x = "AttributeError ''NoneType object has no attribute encode''", OF h]
      g n v
    by (simp add: err_def)
qed

section \<open>The connection is scoped to the request\<close>

lemma release_closes: "conn (snd (try_finally m release w)) = Closed"
  by (simp add: try_finally_def release_def bnd_def cur_close_def conn_close_def split: prod.splits)

lemma get_db_connection_raises:
  "get_db_connection w = (Inl e, w') \<Longrightarrow> conn w' = conn w"
  by (auto simp add: get_db_connection_def connect_def db_call_def raise_def
      split: if_splits list.splits option.splits)

lemma scoped_connection:
  "conn (snd (bnd get_db_connection (\<lambda>_. bnd cursor (\<lambda>_. try_finally m release)) w))
   = (if fst (get_db_connection w) = Inr () then Closed else conn w)"
proof -
  obtain r w1 where g: "get_db_connection w = (r, w1)"
    by (cases "get_db_connection w")
  show ?thesis
  proof (cases r)
    case (Inl e)
    with g get_db_connection_raises [of w e w1] show ?thesis
      by (simp add: bnd_def)
  next
    case (Inr u)
    with g show ?thesis
      by (simp add: bnd_def cursor_def release_closes)
  qed
qed

text \<open>
  Claim C5. Each of the nine handlers that open a connection does so exactly when its
  presence test (if it has one) passes and \<open>get_db_connection\<close> returns; then the
  connection is closed when the handler is left, whatever the request, the contents of the
  store and the failures of the server, and whether the handler returns a response or lets
  an exception through. Otherwise no connection was opened and its status is as before.
\<close>

theorem connection_always_released:
  "conn (snd (signup gph f_name f_email f_password w))
     = (if truthy_str (get f_name) \<and> truthy_str (get f_email) \<and> truthy_str (get f_password)
           \<and> fst (get_db_connection w) = Inr ()
        then Closed else conn w)
   \<and> conn (snd (login cph f_email f_password w))
     = (if truthy_str (get f_email) \<and> truthy_str (get f_password)
           \<and> fst (get_db_connection w) = Inr ()
        then Closed else conn w)
   \<and> conn (snd (get_products category w))
     = (if fst (get_db_connection w) = Inr () then Closed else conn w)
   \<and> conn (snd (add_to_cart f_user_id f_product_id f_quantity w))
     = (if truthy_int (get f_user_id) \<and> truthy_int (get f_product_id)
           \<and> fst (get_db_connection w) = Inr ()
        then Closed else conn w)
   \<and> conn (snd (get_cart int4in user_id w))
     = (if truthy_str user_id \<and> fst (get_db_connection w) = Inr () then Closed else conn w)
   \<and> conn (snd (admin_login cph f_email f_password w))
     = (if fst (get_db_connection w) = Inr () then Closed else conn w)
   \<and> conn (snd (admin_stats w))
     = (if fst (get_db_connection w) = Inr () then Closed else conn w)
   \<and> conn (snd (manage_product int4in meth f_name f_category f_price f_image_url arg_id w))
     = (if fst (get_db_connection w) = Inr () then Closed else conn w)
   \<and> conn (snd (manage_orders meth f_status f_order_id w))
     = (if fst (get_db_connection w) = Inr () then Closed else conn w)"
proof -
  have "conn (snd (signup gph f_name f_email f_password w))
     = (if truthy_str (get f_name) \<and> truthy_str (get f_email) \<and> truthy_str (get f_password)
           \<and> fst (get_db_connection w) = Inr ()
        then Closed else conn w)"
    by (simp add: signup_def ret_def Let_def scoped_connection)
  moreover have "conn (snd (login cph f_email f_password w))
     = (if truthy_str (get f_email) \<and> truthy_str (get f_password)
           \<and> fst (get_db_connection w) = Inr ()
        then Closed else conn w)"
    by (simp add: login_def ret_def Let_def scoped_connection)
  moreover have "conn (snd (get_products category w))
     = (if fst (get_db_connection w) = Inr () then Closed else conn w)"
    by (simp add: get_products_def scoped_connection)
  moreover have "conn (snd (add_to_cart f_user_id f_product_id f_quantity w))
     = (if truthy_int (get f_user_id) \<and> truthy_int (get f_product_id)
           \<and> fst (get_db_connection w) = Inr ()
        then Closed else conn w)"
    by (simp add: add_to_cart_def ret_def Let_def scoped_connection)
  moreover have "conn (snd (get_cart int4in user_id w))
     = (if truthy_str user_id \<and> fst (get_db_connection w) = Inr () then Closed else conn w)"
    by (simp add: get_cart_def ret_def scoped_connection)
  moreover have "conn (snd (admin_login cph f_email f_password w))
     = (if fst (get_db_connection w) = Inr () then Closed else conn w)"
    by (simp add: admin_login_def Let_def scoped_connection)
  moreover have "conn (snd (admin_stats w))
     = (if fst (get_db_connection w) = Inr () then Closed else conn w)"
    by (simp add: admin_stats_def scoped_connection)
  moreover have "conn (snd (manage_product int4in meth f_name f_category f_price f_image_url arg_id w))
     = (if fst (get_db_connection w) = Inr () then Closed else conn w)"
    by (simp add: manage_product_def scoped_connection)
  moreover have "conn (snd (manage_orders meth f_status f_order_id w))
     = (if fst (get_db_connection w) = Inr () then Closed else conn w)"
    by (simp add: manage_orders_def scoped_connection)
  ultimately show ?thesis by blast
qed

theorem connection_always_released_witness:
  "fst (get_db_connection world_fault) = Inr ()
   \<and> fst (login sample_cph (Val ''bob@example.com'') (Val ''builder'') world_fault)
       = Inl (OperationalError ''canceling statement due to lock timeout'')
   \<and> conn (snd (login sample_cph (Val ''bob@example.com'') (Val ''builder'') world_fault)) = Closed
   \<and> fst (add_to_cart (Val 2) (Val 7) (Val 1) world_fault)
       = Inr (Response 500 (err ''Error adding to cart''))
   \<and> conn (snd (add_to_cart (Val 2) (Val 7) (Val 1) world_fault)) = Closed
   \<and> fst (get_products None world0)
       = Inr (Response 200 (JArr (map product_json (products shop))))
   \<and> conn (snd (get_products None world0)) = Closed"
proof -
  have g: "fst (get_db_connection world_fault) = Inr ()" "fst (get_db_connection world0) = Inr ()"
    by (simp_all add: world_fault_def world0_def get_db_connection_def connect_def db_call_def
        truthy_str_def)
  have l: "fst (login sample_cph (Val ''bob@example.com'') (Val ''builder'') world_fault)
       = Inl (OperationalError ''canceling statement due to lock timeout'')"
    by (simp add: login_def get_def world_fault_def world0_def get_db_connection_def connect_def
        truthy_str_def io_defs select_user_by_email_def db_call_def Let_def)
  have a: "fst (add_to_cart (Val 2) (Val 7) (Val 1) world_fault)
       = Inr (Response 500 (err ''Error adding to cart''))"
    by (simp add: add_to_cart_def get_def get_default_def world_fault_def world0_def
        get_db_connection_def connect_def truthy_str_def truthy_int_def io_defs
        select_cart_item_def rollback_def db_call_def Let_def)
  have p: "fst (get_products None world0)
       = Inr (Response 200 (JArr (map product_json (products shop))))"
    by (simp add: get_products_def world0_def get_db_connection_def connect_def
        truthy_str_def io_defs select_products_def db_call_def)
  have t: "truthy_str (get (Val ''bob@example.com''))" "truthy_str (get (Val ''builder''))"
      "truthy_int (get (Val 2))" "truthy_int (get (Val 7))"
    by (simp_all add: get_def truthy_str_def truthy_int_def)
  show ?thesis
    using connection_always_released [where cph = sample_cph and w = world_fault
          and f_email = "Val ''bob@example.com''" and f_password = "Val ''builder''"
          and f_user_id = "Val 2" and f_product_id = "Val 7" and f_quantity = "Val 1"]
      connection_always_released [where w = world0 and category = None]
      g l a p t
    by simp
qed

section \<open>What a failing statement returns to the caller\<close>

text \<open>
  Claim C6, what the code does where the claim fails. On a configured store, take a
  failure of the statement of \<open>manage_product\<close> after which the connection is usable, so
  that the \<open>rollback\<close> of the handler succeeds: the server fails the \<open>INSERT\<close> of
  \<open>POST /admin/product\<close> or the \<open>DELETE\<close> of \<open>DELETE /admin/product\<close> with a message
  \<open>m\<close> (a lock timeout, say), or the body of the \<open>POST\<close> has \<open>name: null\<close> and the
  \<open>INSERT\<close> violates the non-null constraint. The response is 500, but its body carries
  \<open>str(e)\<close>, the text of the driver's exception, and nothing is printed.
\<close>

theorem manage_product_returns_exception_text:
  assumes "truthy_str (database_url w)"
  shows "(faults w = [None, Some m] \<longrightarrow>
            fst (manage_product int4in POST (Val n) (Val c) (Val pr) (Val i) arg_id w)
              = Inr (Response 500 (err m))
          \<and> stdout (snd (manage_product int4in POST (Val n) (Val c) (Val pr) (Val i) arg_id w))
              = stdout w
          \<and> fst (manage_product int4in DELETE f_name f_category f_price f_image_url arg_id w)
              = Inr (Response 500 (err m))
          \<and> stdout (snd (manage_product int4in DELETE f_name f_category f_price f_image_url
                 arg_id w))
              = stdout w)
       \<and> (faults w = [] \<longrightarrow>
            fst (manage_product int4in POST Null (Val c) (Val pr) (Val i) arg_id w)
              = Inr (Response 500 (err ''null value violates not-null constraint''))
          \<and> stdout (snd (manage_product int4in POST Null (Val c) (Val pr) (Val i) arg_id w))
              = stdout w
          \<and> store (snd (manage_product int4in POST Null (Val c) (Val pr) (Val i) arg_id w))
              = store w)"
  using assms
  by (simp add: manage_product_def get_db_connection_def connect_def io_defs subscript_def
      insert_product_def delete_product_def rollback_def db_call_def Let_def)

text \<open>
  On the sample shop: the client of \<open>manage_product\<close> reads the driver's message, for the
  null name and for the lock timeout, while \<open>add_to_cart\<close> prints the message of the lock
  timeout and answers with a fixed one.
\<close>

theorem manage_product_returns_exception_text_witness:
  "truthy_str (database_url world0) \<and> faults world0 = []
   \<and> fst (manage_product sample_int4in POST Null (Val ''home'') (Val 4) (Val ''mug.png'') None
          world0)
     = Inr (Response 500 (err ''null value violates not-null constraint''))
   \<and> stdout (snd (manage_product sample_int4in POST Null (Val ''home'') (Val 4)
          (Val ''mug.png'') None world0)) = []
   \<and> truthy_str (database_url world_fault)
   \<and> faults world_fault = [None, Some ''canceling statement due to lock timeout'']
   \<and> fst (manage_product sample_int4in POST (Val ''Mug'') (Val ''home'') (Val 4) (Val ''mug.png'') None
          world_fault)
     = Inr (Response 500 (err ''canceling statement due to lock timeout''))
   \<and> stdout (snd (manage_product sample_int4in POST (Val ''Mug'') (Val ''home'') (Val 4)
          (Val ''mug.png'') None world_fault)) = []
   \<and> fst (manage_product sample_int4in DELETE Absent Absent Absent Absent (Some ''1'') world_fault)
     = Inr (Response 500 (err ''canceling statement due to lock timeout''))
   \<and> fst (add_to_cart (Val 2) (Val 7) (Val 1) world_fault)
     = Inr (Response 500 (err ''Error adding to cart''))
   \<and> stdout (snd (add_to_cart (Val 2) (Val 7) (Val 1) world_fault))
     = [''Error: canceling statement due to lock timeout'']"
proof -
  have h0: "truthy_str (database_url world0)" and f0: "faults world0 = []"
    and o0: "stdout world0 = []"
    by (simp_all add: world0_def truthy_str_def)
  have h: "truthy_str (database_url world_fault)"
    and f: "faults world_fault = [None, Some ''canceling statement due to lock timeout'']"
    and o: "stdout world_fault = []"
    by (simp_all add: world_fault_def world0_def truthy_str_def)
  have a: "fst (add_to_cart (Val 2) (Val 7) (Val 1) world_fault)
       = Inr (Response 500 (err ''Error adding to cart''))"
      "stdout (snd (add_to_cart (Val 2) (Val 7) (Val 1) world_fault))
       = [''Error: canceling statement due to lock timeout'']"
    by (simp_all add: add_to_cart_def get_def get_default_def world_fault_def world0_def
        get_db_connection_def connect_def truthy_str_def truthy_int_def io_defs
        select_cart_item_def rollback_def db_call_def Let_def)
  show ?thesis
    using manage_product_returns_exception_text [where int4in = sample_int4in
          and c = "''home''" and pr = 4 and i = "''mug.png''" and arg_id = None, OF h0]
      manage_product_returns_exception_text [where int4in = sample_int4in and n = "''Mug''"
          and c = "''home''" and pr = 4 and i = "''mug.png''" and arg_id = None
          and m = "''canceling statement due to lock timeout''", OF h]
      manage_product_returns_exception_text [where int4in = sample_int4in and f_name = Absent
          and f_category = Absent and f_price = Absent and f_image_url = Absent
          and arg_id = "Some ''1''" and m = "''canceling statement due to lock timeout''", OF h]
      h0 f0 o0 h f o a
    by simp
qed

section \<open>Orders and statistics\<close>

lemma order_by_desc_sorted:
  "sorted_wrt (\<lambda>a b. line_date b \<le> line_date a) (order_by_created_at_desc rows)"
proof -
  have "sorted (map (\<lambda>r. - line_date r) (order_by_created_at_desc rows))"
    unfolding order_by_created_at_desc_def by (rule sorted_sort_key)
  then show ?thesis by (simp add: sorted_wrt_map)
qed

lemma orders_join_mem:
  "line \<in> set (orders_join t) \<longleftrightarrow>
     (\<exists>r \<in> set (orders t). \<exists>u \<in> set (users t).
        o_user_id r = u_id u \<and>
        line = (o_id r, u_name u, o_total_amount r, o_status r, o_created_at r))"
  by (auto simp add: orders_join_def)

text \<open>
  Claim C7. On a configured store that answers every round trip, \<open>GET /admin/orders\<close>
  returns 200 with one object per line of the result, in the order of the result. The
  result has the lines of the inner join of orders and users on \<open>user_id\<close> (each as often
  as the join has it), and every line's \<open>created_at\<close> is at least that of every later line.
\<close>

theorem list_orders_sorted:
  assumes "truthy_str (database_url w)" and "faults w = []"
  shows "fst (manage_orders GET f_status f_order_id w)
           = Inr (Response 200 (JArr (map order_json
                   (order_by_created_at_desc (orders_join (store w))))))
       \<and> sorted_wrt (\<lambda>a b. line_date b \<le> line_date a)
            (order_by_created_at_desc (orders_join (store w)))
       \<and> mset (order_by_created_at_desc (orders_join (store w))) = mset (orders_join (store w))
       \<and> (\<forall>line. line \<in> set (orders_join (store w)) \<longleftrightarrow>
             (\<exists>r \<in> set (orders (store w)). \<exists>u \<in> set (users (store w)).
                o_user_id r = u_id u \<and>
                line = (o_id r, u_name u, o_total_amount r, o_status r, o_created_at r)))"
proof -
  let ?rows = "order_by_created_at_desc (orders_join (store w))"
  have r: "fst (manage_orders GET f_status f_order_id w)
      = Inr (Response 200 (JArr (map order_json ?rows)))"
    using assms
    by (simp add: manage_orders_def get_db_connection_quiet io_defs select_orders_join_def
        db_call_def)
  have m: "mset ?rows = mset (orders_join (store w))"
    by (simp add: order_by_created_at_desc_def)
  show ?thesis
    using r m order_by_desc_sorted [of "orders_join (store w)"] orders_join_mem [of _ "store w"]
    by blast
qed

theorem list_orders_sorted_witness:
  "truthy_str (database_url world0) \<and> faults world0 = []
   \<and> fst (manage_orders GET Absent Absent world0)
       = Inr (Response 200 (JArr
           [JObj [(''id'', JInt 2), (''customer'', JStr ''Ada''), (''amount'', JNum (15 / 2)),
                  (''status'', JStr ''shipped''), (''date'', JDate 300)],
            JObj [(''id'', JInt 3), (''customer'', JStr ''Bob''), (''amount'', JNum 5),
                  (''status'', JStr ''pending''), (''date'', JDate 200)],
            JObj [(''id'', JInt 1), (''customer'', JStr ''Bob''), (''amount'', JNum 40),
                  (''status'', JStr ''pending''), (''date'', JDate 100)]]))"
proof -
  have h: "truthy_str (database_url world0)" "faults world0 = []"
    by (simp_all add: world0_def truthy_str_def)
  have j: "order_by_created_at_desc (orders_join (store world0)) =
      [(2, ''Ada'', 15 / 2, ''shipped'', 300), (3, ''Bob'', 5, ''pending'', 200),
       (1, ''Bob'', 40, ''pending'', 100)]"
    by (simp add: world0_def shop_def orders_join_def order_by_created_at_desc_def line_date_def)
  show ?thesis
    using list_orders_sorted [OF h, of Absent Absent] h j by (simp add: order_json_def)
qed

lemma coalesce_sql_sum: "coalesce (sql_sum xs) 0 = sum_list xs"
  by (simp add: coalesce_def sql_sum_def)

text \<open>
  Claim C8. On a configured store that answers every round trip, \<open>GET /admin/stats\<close>
  returns 200 with \<open>revenue\<close> the sum of \<open>total_amount\<close> over the order rows, \<open>orders\<close> the
  number of order rows and \<open>products\<close> the number of product rows; with no order rows the
  revenue is the number 0 and \<open>orders\<close> is 0.
\<close>

theorem admin_stats_totals:
  assumes "truthy_str (database_url w)" and "faults w = []"
  shows "fst (admin_stats w) =
           Inr (Response 200 (JObj
              [(''revenue'', JNum (sum_list (map o_total_amount (orders (store w))))),
               (''orders'', JInt (int (length (orders (store w))))),
               (''products'', JInt (int (length (products (store w)))))]))
       \<and> (orders (store w) = [] \<longrightarrow>
            fst (admin_stats w) =
              Inr (Response 200 (JObj
                [(''revenue'', JNum 0), (''orders'', JInt 0),
                 (''products'', JInt (int (length (products (store w)))))])))"
  using assms
  by (simp add: admin_stats_def get_db_connection_quiet io_defs select_revenue_def
        select_count_orders_def select_count_products_def db_call_def coalesce_sql_sum)

theorem admin_stats_totals_witness:
  "truthy_str (database_url world0) \<and> faults world0 = []
   \<and> fst (admin_stats world0)
       = Inr (Response 200 (JObj [(''revenue'', JNum (105 / 2)), (''orders'', JInt 3),
                                  (''products'', JInt 2)]))
   \<and> orders (store (world0\<lparr>store := shop\<lparr>orders := []\<rparr>\<rparr>)) = []
   \<and> fst (admin_stats (world0\<lparr>store := shop\<lparr>orders := []\<rparr>\<rparr>))
       = Inr (Response 200 (JObj [(''revenue'', JNum 0), (''orders'', JInt 0),
                                  (''products'', JInt 2)]))"
proof -
  let ?w = "world0\<lparr>store := shop\<lparr>orders := []\<rparr>\<rparr>"
  have h: "truthy_str (database_url world0)" "faults world0 = []"
    by (simp_all add: world0_def truthy_str_def)
  have h': "truthy_str (database_url ?w)" "faults ?w = []"
    by (simp_all add: world0_def truthy_str_def)
  have v: "sum_list (map o_total_amount (orders (store world0))) = 105 / 2"
      "length (orders (store world0)) = 3" "length (products (store world0)) = 2"
      "orders (store ?w) = []" "length (products (store ?w)) = 2"
    by (simp_all add: world0_def shop_def)
  show ?thesis
    using admin_stats_totals [OF h] admin_stats_totals [OF h'] h v by simp
qed

section \<open>Reading the cart\<close>

lemma cart_join_mem:
  "line \<in> set (cart_join t u) \<longleftrightarrow>
     (\<exists>c \<in> set (cart t). \<exists>p \<in> set (products t).
        c_user_id c = u \<and> c_product_id c = p_id p \<and>
        line = (c_id c, p_name p, p_price p, p_image_url p, c_quantity c))"
  by (auto simp add: cart_join_def)

lemma join_skips_orphans:
  "concat (map (\<lambda>c. map (g c) (filter (\<lambda>p. c_product_id c = p_id p) ps))
             (filter Q (filter (\<lambda>c. c_product_id c \<in> set (map p_id ps)) cs)))
   = concat (map (\<lambda>c. map (g c) (filter (\<lambda>p. c_product_id c = p_id p) ps)) (filter Q cs))"
proof (induction cs)
  case Nil
  show ?case by simp
next
  case (Cons c cs)
  have "filter (\<lambda>p. c_product_id c = p_id p) ps = []" if "c_product_id c \<notin> set (map p_id ps)"
    using that by (auto simp add: filter_empty_conv)
  with Cons show ?case by auto
qed

lemma cart_join_orphans:
  "cart_join (t\<lparr>cart := filter (\<lambda>c. c_product_id c \<in> set (map p_id (products t))) (cart t)\<rparr>) u
   = cart_join t u"
  using join_skips_orphans [of "\<lambda>c p. (c_id c, p_name p, p_price p, p_image_url p, c_quantity c)"
      "products t" "\<lambda>c. c_user_id c = u" "cart t"]
  by (simp add: cart_join_def)

text \<open>
  Claim C9. On a configured store that answers every round trip, \<open>GET /cart\<close> with a
  \<open>user_id\<close> that is not empty and that the server reads as the integer \<open>u\<close> returns 200
  with the lines of the inner join. Every line comes from a cart row of user \<open>u\<close> and a
  product row with that row's \<open>product_id\<close>, with all five fields from these two rows; and
  the result is the same as on a cart from which the rows whose \<open>product_id\<close> matches no
  product have been removed: such rows are left out, with no error.
\<close>

theorem get_cart_inner_join:
  assumes "s \<noteq> []" and "int4in s = Some u"
    and "truthy_str (database_url w)" and "faults w = []"
  shows "fst (get_cart int4in (Some s) w)
           = Inr (Response 200 (JArr (map cart_json (cart_join (store w) u))))
       \<and> (\<forall>line \<in> set (cart_join (store w) u).
             \<exists>c \<in> set (cart (store w)). \<exists>p \<in> set (products (store w)).
               c_user_id c = u \<and> c_product_id c = p_id p \<and>
               line = (c_id c, p_name p, p_price p, p_image_url p, c_quantity c))
       \<and> cart_join (store w) u =
           cart_join ((store w)\<lparr>cart :=
              filter (\<lambda>c. c_product_id c \<in> set (map p_id (products (store w))))
                (cart (store w))\<rparr>) u"
proof -
  have "fst (get_cart int4in (Some s) w)
      = Inr (Response 200 (JArr (map cart_json (cart_join (store w) u))))"
    using assms
    by (simp add: get_cart_def truthy_str_def get_db_connection_quiet io_defs
        select_cart_join_def db_call_def)
  then show ?thesis
    using cart_join_orphans [of "store w" u] by (simp add: cart_join_mem)
qed

theorem get_cart_inner_join_witness:
  "''2'' \<noteq> [] \<and> sample_int4in ''2'' = Some 2
   \<and> truthy_str (database_url world0) \<and> faults world0 = []
   \<and> \<lparr>c_id = 2, c_user_id = 2, c_product_id = 99, c_quantity = 4\<rparr> \<in> set (cart (store world0))
   \<and> fst (get_cart sample_int4in (Some ''2'') world0)
       = Inr (Response 200 (JArr
           [JObj [(''id'', JInt 1), (''name'', JStr ''Lamp''), (''price'', JNum (25 / 2)),
                  (''image_url'', JStr ''lamp.png''), (''quantity'', JInt 1)]]))"
proof -
  have h: "''2'' \<noteq> []" "sample_int4in ''2'' = Some 2"
      "truthy_str (database_url world0)" "faults world0 = []"
    by (simp_all add: world0_def truthy_str_def sample_int4in_def)
  have c: "\<lparr>c_id = 2, c_user_id = 2, c_product_id = 99, c_quantity = 4\<rparr> \<in> set (cart (store world0))"
    by (simp add: world0_def shop_def)
  have j: "cart_join (store world0) 2 = [(1, ''Lamp'', 25 / 2, ''lamp.png'', 1)]"
    by (simp add: world0_def shop_def cart_join_def)
  show ?thesis
    using get_cart_inner_join [where int4in = sample_int4in, OF h] h c j
    by (simp add: cart_json_def)
qed

end
